theory Spec2Isabelle
  imports Main
begin

section \<open>Data model (apps/payment/models.py)\<close>

text \<open>
  Every money column of the payment models is a \<^verbatim>\<open>DecimalField\<close> with
  \<^verbatim>\<open>decimal_places=2\<close>, and the request serializers accept amounts with at most two
  fractional digits. A stored amount is therefore an integer number of cents;
  \<^verbatim>\<open>Decimal\<close> addition, subtraction and comparison on such values are exact, so
  they are the operations of \<open>int\<close>. The \<^verbatim>\<open>max_digits\<close> bound of the columns is not
  part of the model. Users and rows are named by natural numbers: a wallet is found by
  the user it belongs to (the relation is one-to-one), a transaction by its position in
  the transaction table, which hands out a fresh identifier for every new row as
  \<^verbatim>\<open>uuid4\<close> does. Identifiers passed to the service are well-formed (a
  transaction id or a trade id that is not a UUID makes the ORM raise before any row is
  read or written). The timestamps that the ORM maintains on its own
  (\<^verbatim>\<open>created_at\<close>, \<^verbatim>\<open>updated_at\<close>) are left out.
\<close>

type_synonym money = int
type_synonym user_id = nat
type_synonym transaction_id = nat

record UserWallet =
  stripe_customer_id :: "string option"
  available_balance :: money
  escrow_balance :: money
  total_deposited :: money
  total_withdrawn :: money
  total_shipping_paid :: money
  withdrawal_limit_daily :: money
  withdrawal_limit_monthly :: money

text \<open>The column defaults of a row made by \<^verbatim>\<open>get_or_create\<close>.\<close>

definition new_wallet :: UserWallet where
  "new_wallet =
     \<lparr>stripe_customer_id = None, available_balance = 0, escrow_balance = 0,
      total_deposited = 0, total_withdrawn = 0, total_shipping_paid = 0,
      withdrawal_limit_daily = 100000, withdrawal_limit_monthly = 1000000\<rparr>"

definition total_balance :: "UserWallet \<Rightarrow> money" where
  "total_balance w = available_balance w + escrow_balance w"

definition can_withdraw :: "UserWallet \<Rightarrow> money \<Rightarrow> bool" where
  "can_withdraw w amt \<longleftrightarrow> amt \<le> available_balance w"

definition can_place_in_escrow :: "UserWallet \<Rightarrow> money \<Rightarrow> bool" where
  "can_place_in_escrow w amt \<longleftrightarrow> amt \<le> available_balance w"

datatype transaction_type =
    Deposit | Withdrawal | Escrow_Deposit | Escrow_Release | Escrow_Refund
  | Shipping_Payment | Trade_Fee | Refund

datatype status = Pending | Processing | Completed | Failed | Cancelled | Refunded

text \<open>\<^verbatim>\<open>get_transaction_type_display\<close>: the label of \<^verbatim>\<open>TRANSACTION_TYPES\<close>.\<close>

fun get_transaction_type_display :: "transaction_type \<Rightarrow> string" where
  "get_transaction_type_display Deposit = ''Deposit''"
| "get_transaction_type_display Withdrawal = ''Withdrawal''"
| "get_transaction_type_display Escrow_Deposit = ''Escrow Deposit''"
| "get_transaction_type_display Escrow_Release = ''Escrow Release''"
| "get_transaction_type_display Escrow_Refund = ''Escrow Refund''"
| "get_transaction_type_display Shipping_Payment = ''Shipping Payment''"
| "get_transaction_type_display Trade_Fee = ''Trade Fee''"
| "get_transaction_type_display Refund = ''Refund''"

record WalletTransaction =
  wallet :: user_id
  transaction_type :: transaction_type
  amount :: money
  status :: status
  description :: string
  stripe_payment_intent_id :: "string option"
  stripe_charge_id :: "string option"
  trade_id :: "string option"
  platform_fee :: money
  stripe_fee :: money
  balance_before :: "money option"
  balance_after :: "money option"
  completed_at :: "nat option"

definition net_amount :: "WalletTransaction \<Rightarrow> money" where
  "net_amount t = amount t - platform_fee t - stripe_fee t"

record BankAccount =
  bank_id :: nat
  user :: user_id
  stripe_bank_account_id :: string
  bank_name :: string
  is_verified :: bool
  is_default :: bool
  is_active :: bool

section \<open>Database and environment\<close>

text \<open>
  The three tables the ledger touches. Bank accounts are kept in primary-key order,
  the order in which \<^verbatim>\<open>.first()\<close> reads an unordered queryset.
\<close>

record db =
  wallets :: "user_id \<rightharpoonup> UserWallet"
  transactions :: "WalletTransaction list"
  bank_accounts :: "BankAccount list"

definition initial_db :: "BankAccount list \<Rightarrow> db" where
  "initial_db banks = \<lparr>wallets = Map.empty, transactions = [], bank_accounts = banks\<rparr>"

text \<open>
  What the outside world answers during one call: the clock read by
  \<^verbatim>\<open>timezone.now()\<close>, the customer id returned by \<^verbatim>\<open>stripe.Customer.create\<close>
  (\<open>Inl\<close> the message when it raises) and the id of the payment intent returned by
  \<^verbatim>\<open>stripe.PaymentIntent.create\<close> (\<open>Inl\<close> the message of the \<^verbatim>\<open>StripeError\<close>).
\<close>

record env =
  now :: nat
  customer_create :: "string + string"
  payment_intent_create :: "string + string"

datatype exn = StripeError string | ValueError string | RelatedObjectDoesNotExist

fun str_exn :: "exn \<Rightarrow> string" where
  "str_exn (StripeError m) = m"
| "str_exn (ValueError m) = m"
| "str_exn RelatedObjectDoesNotExist = ''WalletTransaction has no wallet.''"

text \<open>
  A service call returns its success dictionary (\<open>Success\<close>, or the returned
  boolean), returns \<^verbatim>\<open>{'success': False, 'error': msg}\<close> (\<open>Failure msg\<close>, with the
  transaction id when the dictionary carries one), or lets an exception escape
  (\<open>Raise\<close>).
\<close>

datatype 'a result = Success 'a | Failure string "transaction_id option" | Raise exn

text \<open>
  \<^verbatim>\<open>@transaction.atomic\<close>: the writes of the body are kept when it returns and
  undone when an exception leaves it.
\<close>

definition atomic :: "db \<Rightarrow> 'a result \<times> db \<Rightarrow> 'a result \<times> db" where
  "atomic s0 rs = (case fst rs of Raise e \<Rightarrow> (Raise e, s0) | _ \<Rightarrow> rs)"

definition save_wallet :: "db \<Rightarrow> user_id \<Rightarrow> UserWallet \<Rightarrow> db" where
  "save_wallet s u w = s\<lparr>wallets := (wallets s)(u \<mapsto> w)\<rparr>"

definition create_transaction :: "db \<Rightarrow> WalletTransaction \<Rightarrow> transaction_id \<times> db" where
  "create_transaction s t = (length (transactions s), s\<lparr>transactions := transactions s @ [t]\<rparr>)"

definition save_transaction :: "db \<Rightarrow> transaction_id \<Rightarrow> WalletTransaction \<Rightarrow> db" where
  "save_transaction s tid t = s\<lparr>transactions := (transactions s)[tid := t]\<rparr>"

text \<open>\<^verbatim>\<open>WalletTransaction.objects.get(id=...)\<close>; \<open>None\<close> is \<^verbatim>\<open>DoesNotExist\<close>.\<close>

definition get_transaction :: "db \<Rightarrow> transaction_id \<Rightarrow> WalletTransaction option" where
  "get_transaction s tid =
     (if tid < length (transactions s) then Some (transactions s ! tid) else None)"

text \<open>Python truthiness of an optional string: \<^verbatim>\<open>None\<close> and \<^verbatim>\<open>''\<close> are false.\<close>

definition truthy :: "string option \<Rightarrow> bool" where
  "truthy x \<longleftrightarrow> (case x of None \<Rightarrow> False | Some v \<Rightarrow> v \<noteq> [])"

text \<open>
  A \<^verbatim>\<open>DecimalField(decimal_places=2)\<close> column of the PostgreSQL backend (the
  \<^verbatim>\<open>db_engine\<close> of core/config.py) stores a value of higher precision rounded to
  the cent, ties away from zero. The argument is in units of \<open>10\<^sup>-\<^sup>5\<close> dollars, the
  precision of \<^verbatim>\<open>amount * Decimal('0.029')\<close>. No amount used below produces a tie.
\<close>

definition quantize :: "int \<Rightarrow> money" where
  "quantize n = (if 0 \<le> n then (n + 500) div 1000 else - ((500 - n) div 1000))"

section \<open>Wallet methods (apps/payment/models.py)\<close>

definition move_to_escrow ::
  "db \<Rightarrow> user_id \<Rightarrow> UserWallet \<Rightarrow> money \<Rightarrow> exn + UserWallet \<times> db" where
  "move_to_escrow s u w amt =
     (if \<not> can_place_in_escrow w amt
      then Inl (ValueError ''Insufficient available balance for escrow'')
      else
        let w1 = w\<lparr>available_balance := available_balance w - amt\<rparr>;
            w2 = w1\<lparr>escrow_balance := escrow_balance w1 + amt\<rparr>
        in Inr (w2, save_wallet s u w2))"

definition release_from_escrow ::
  "db \<Rightarrow> user_id \<Rightarrow> UserWallet \<Rightarrow> money \<Rightarrow> bool \<Rightarrow> exn + UserWallet \<times> db" where
  "release_from_escrow s u w amt to_available =
     (if amt > escrow_balance w
      then Inl (ValueError ''Insufficient escrow balance'')
      else
        let w1 = w\<lparr>escrow_balance := escrow_balance w - amt\<rparr>;
            w2 = (if to_available
                  then w1\<lparr>available_balance := available_balance w1 + amt\<rparr> else w1)
        in Inr (w2, save_wallet s u w2))"

section \<open>Ledger service (apps/payment/services.py)\<close>

text \<open>
  \<^verbatim>\<open>WalletService.get_or_create_wallet\<close>. The row is created first; the Stripe
  customer is created when the wallet has none, and an error of that call escapes
  after the row has been written.
\<close>

definition get_or_create_wallet :: "env \<Rightarrow> db \<Rightarrow> user_id \<Rightarrow> (exn + UserWallet) \<times> db" where
  "get_or_create_wallet e s u =
     (let (w, s1) = (case wallets s u of
                       Some w0 \<Rightarrow> (w0, s)
                     | None \<Rightarrow> (new_wallet, save_wallet s u new_wallet))
      in if \<not> truthy (stripe_customer_id w)
         then (case customer_create e of
                 Inl m \<Rightarrow> (Inl (StripeError m), s1)
               | Inr cid \<Rightarrow>
                   let w1 = w\<lparr>stripe_customer_id := Some cid\<rparr>
                   in (Inr w1, save_wallet s1 u w1))
         else (Inr w, s1))"

text \<open>
  The fee estimates of \<^verbatim>\<open>create_deposit_intent\<close>,
  \<^verbatim>\<open>amount * Decimal('0.029') + Decimal('0.30')\<close> and
  \<^verbatim>\<open>amount * Decimal('0.01')\<close>, as the transaction row stores them.
\<close>

definition deposit_stripe_fee :: "money \<Rightarrow> money" where
  "deposit_stripe_fee amt = quantize (amt * 29 + 30000)"

definition deposit_platform_fee :: "money \<Rightarrow> money" where
  "deposit_platform_fee amt = quantize (amt * 10)"

text \<open>The row written by \<^verbatim>\<open>WalletTransaction.objects.create\<close> with the column defaults.\<close>

definition new_transaction ::
  "user_id \<Rightarrow> transaction_type \<Rightarrow> money \<Rightarrow> string \<Rightarrow> string option \<Rightarrow> money
     \<Rightarrow> WalletTransaction" where
  "new_transaction u ty amt descr trade bal =
     \<lparr>wallet = u, transaction_type = ty, amount = amt, status = Pending,
      description = descr, stripe_payment_intent_id = None, stripe_charge_id = None,
      trade_id = trade, platform_fee = 0, stripe_fee = 0,
      balance_before = Some bal, balance_after = None, completed_at = None\<rparr>"

text \<open>
  \<^verbatim>\<open>create_deposit_intent\<close> is not atomic: each write is committed as it is made.
  It succeeds with the transaction id and the payment intent.
\<close>

definition create_deposit_intent ::
  "env \<Rightarrow> db \<Rightarrow> user_id \<Rightarrow> money \<Rightarrow> string \<Rightarrow> string
     \<Rightarrow> (transaction_id \<times> string) result \<times> db" where
  "create_deposit_intent e s u amt payment_method_id descr =
     (case get_or_create_wallet e s u of
        (Inl x, s1) \<Rightarrow> (Raise x, s1)
      | (Inr w, s1) \<Rightarrow>
          let rec0 = (new_transaction u Deposit amt
                        (if descr \<noteq> [] then descr else ''Deposit to wallet'')
                        None (available_balance w))
                     \<lparr>platform_fee := deposit_platform_fee amt,
                      stripe_fee := deposit_stripe_fee amt\<rparr>;
              (tid, s2) = create_transaction s1 rec0
          in (case payment_intent_create e of
                Inr pi \<Rightarrow>
                  let rec1 = rec0\<lparr>stripe_payment_intent_id := Some pi,
                                  status := Processing\<rparr>
                  in (Success (tid, pi), save_transaction s2 tid rec1)
              | Inl m \<Rightarrow>
                  let rec1 = rec0\<lparr>status := Failed,
                                  description := description rec0 @ '' - Error: '' @ m\<rparr>
                  in (Failure m (Some tid), save_transaction s2 tid rec1)))"

text \<open>
  \<^verbatim>\<open>complete_deposit\<close>. The lookup
  \<^verbatim>\<open>get(id=transaction_id, transaction_type='deposit')\<close> raises
  \<^verbatim>\<open>DoesNotExist\<close>, which the function turns into \<^verbatim>\<open>False\<close>, for an unknown
  id and for a row of another type.
\<close>

definition complete_deposit ::
  "env \<Rightarrow> db \<Rightarrow> transaction_id \<Rightarrow> string option \<Rightarrow> bool result \<times> db" where
  "complete_deposit e s tid charge = atomic s
     (case get_transaction s tid of
        None \<Rightarrow> (Success False, s)
      | Some t \<Rightarrow>
          if transaction_type t \<noteq> Deposit then (Success False, s)
          else if status t \<noteq> Processing then (Success False, s)
          else (case wallets s (wallet t) of
                  None \<Rightarrow> (Raise RelatedObjectDoesNotExist, s)
                | Some w \<Rightarrow>
                    let net = net_amount t;
                        w1 = w\<lparr>available_balance := available_balance w + net\<rparr>;
                        w2 = w1\<lparr>total_deposited := total_deposited w1 + amount t\<rparr>;
                        t1 = t\<lparr>status := Completed, stripe_charge_id := charge,
                              balance_after := Some (available_balance w2),
                              completed_at := Some (now e)\<rparr>
                    in (Success True, save_transaction (save_wallet s (wallet t) w2) tid t1)))"

text \<open>\<^verbatim>\<open>escrow_deposit\<close> succeeds with the transaction id and the new escrow balance.\<close>

definition escrow_deposit ::
  "env \<Rightarrow> db \<Rightarrow> user_id \<Rightarrow> money \<Rightarrow> string \<Rightarrow> string
     \<Rightarrow> (transaction_id \<times> money) result \<times> db" where
  "escrow_deposit e s u amt trade descr = atomic s
     (case get_or_create_wallet e s u of
        (Inl x, s1) \<Rightarrow> (Raise x, s1)
      | (Inr w, s1) \<Rightarrow>
          if \<not> can_place_in_escrow w amt
          then (Failure ''Insufficient available balance for escrow deposit'' None, s1)
          else
            let rec0 = new_transaction u Escrow_Deposit amt
                         (if descr \<noteq> [] then descr else ''Escrow deposit for trade '' @ trade)
                         (Some trade) (available_balance w);
                (tid, s2) = create_transaction s1 rec0
            in (case move_to_escrow s2 u w amt of
                  Inl x \<Rightarrow> (Failure (str_exn x) None, s2)
                | Inr (w1, s3) \<Rightarrow>
                    let rec1 = rec0\<lparr>status := Completed,
                                    balance_after := Some (available_balance w1),
                                    completed_at := Some (now e)\<rparr>
                    in (Success (tid, escrow_balance w1), save_transaction s3 tid rec1)))"

text \<open>
  \<^verbatim>\<open>release_escrow\<close> succeeds with the transaction id, the new available balance
  and the new escrow balance.
\<close>

definition release_escrow ::
  "env \<Rightarrow> db \<Rightarrow> user_id \<Rightarrow> money \<Rightarrow> string \<Rightarrow> bool \<Rightarrow> string
     \<Rightarrow> (transaction_id \<times> money \<times> money) result \<times> db" where
  "release_escrow e s u amt trade to_available descr = atomic s
     (case get_or_create_wallet e s u of
        (Inl x, s1) \<Rightarrow> (Raise x, s1)
      | (Inr w, s1) \<Rightarrow>
          if amt > escrow_balance w
          then (Failure ''Insufficient escrow balance'' None, s1)
          else
            let ty = (if to_available then Escrow_Release else Escrow_Refund);
                rec0 = new_transaction u ty amt
                         (if descr \<noteq> [] then descr else ''Escrow release for trade '' @ trade)
                         (Some trade) (available_balance w);
                (tid, s2) = create_transaction s1 rec0
            in (case release_from_escrow s2 u w amt to_available of
                  Inl x \<Rightarrow> (Failure (str_exn x) None, s2)
                | Inr (w1, s3) \<Rightarrow>
                    let rec1 = rec0\<lparr>status := Completed,
                                    balance_after := Some (available_balance w1),
                                    completed_at := Some (now e)\<rparr>
                    in (Success (tid, available_balance w1, escrow_balance w1),
                        save_transaction s3 tid rec1)))"

text \<open>\<^verbatim>\<open>shipping_payment\<close> succeeds with the transaction id and the new available balance.\<close>

definition shipping_payment ::
  "env \<Rightarrow> db \<Rightarrow> user_id \<Rightarrow> money \<Rightarrow> string \<Rightarrow> string
     \<Rightarrow> (transaction_id \<times> money) result \<times> db" where
  "shipping_payment e s u amt trade descr = atomic s
     (case get_or_create_wallet e s u of
        (Inl x, s1) \<Rightarrow> (Raise x, s1)
      | (Inr w, s1) \<Rightarrow>
          if \<not> can_withdraw w amt
          then (Failure ''Insufficient available balance for shipping payment'' None, s1)
          else
            let rec0 = new_transaction u Shipping_Payment amt
                         (if descr \<noteq> [] then descr else ''Shipping payment for trade '' @ trade)
                         (Some trade) (available_balance w);
                (tid, s2) = create_transaction s1 rec0;
                w1 = w\<lparr>available_balance := available_balance w - amt\<rparr>;
                w2 = w1\<lparr>total_shipping_paid := total_shipping_paid w1 + amt\<rparr>;
                s3 = save_wallet s2 u w2;
                rec1 = rec0\<lparr>status := Completed,
                            balance_after := Some (available_balance w2),
                            completed_at := Some (now e)\<rparr>
            in (Success (tid, available_balance w2), save_transaction s3 tid rec1))"

text \<open>
  The destination of a withdrawal: the active account of the user with the given id,
  or, when no id is given, the user's first active default account.
\<close>

definition find_bank_account :: "db \<Rightarrow> user_id \<Rightarrow> nat option \<Rightarrow> BankAccount option" where
  "find_bank_account s u bank_account_id =
     (case bank_account_id of
        Some b \<Rightarrow> find (\<lambda>a. bank_id a = b \<and> user a = u \<and> is_active a) (bank_accounts s)
      | None \<Rightarrow> find (\<lambda>a. user a = u \<and> is_default a \<and> is_active a) (bank_accounts s))"

text \<open>
  \<^verbatim>\<open>create_withdrawal\<close> is not atomic. It succeeds with the transaction id and the
  name of the bank.
\<close>

definition create_withdrawal ::
  "env \<Rightarrow> db \<Rightarrow> user_id \<Rightarrow> money \<Rightarrow> nat option \<Rightarrow> string
     \<Rightarrow> (transaction_id \<times> string) result \<times> db" where
  "create_withdrawal e s u amt bank_account_id descr =
     (case get_or_create_wallet e s u of
        (Inl x, s1) \<Rightarrow> (Raise x, s1)
      | (Inr w, s1) \<Rightarrow>
          if \<not> can_withdraw w amt
          then (Failure ''Insufficient available balance for withdrawal'' None, s1)
          else (case find_bank_account s1 u bank_account_id of
                  None \<Rightarrow>
                    (Failure (if bank_account_id \<noteq> None then ''Bank account not found''
                              else ''No default bank account found'') None, s1)
                | Some bank_account \<Rightarrow>
                    let rec0 = new_transaction u Withdrawal amt
                                 (if descr \<noteq> [] then descr
                                  else ''Withdrawal to '' @ bank_name bank_account)
                                 None (available_balance w);
                        (tid, s2) = create_transaction s1 rec0;
                        rec1 = rec0\<lparr>status := Processing\<rparr>
                    in (Success (tid, bank_name bank_account), save_transaction s2 tid rec1)))"

definition complete_withdrawal :: "env \<Rightarrow> db \<Rightarrow> transaction_id \<Rightarrow> bool result \<times> db" where
  "complete_withdrawal e s tid = atomic s
     (case get_transaction s tid of
        None \<Rightarrow> (Success False, s)
      | Some t \<Rightarrow>
          if transaction_type t \<noteq> Withdrawal then (Success False, s)
          else if status t \<noteq> Processing then (Success False, s)
          else (case wallets s (wallet t) of
                  None \<Rightarrow> (Raise RelatedObjectDoesNotExist, s)
                | Some w \<Rightarrow>
                    let w1 = w\<lparr>available_balance := available_balance w - amount t\<rparr>;
                        w2 = w1\<lparr>total_withdrawn := total_withdrawn w1 + amount t\<rparr>;
                        t1 = t\<lparr>status := Completed,
                              balance_after := Some (available_balance w2),
                              completed_at := Some (now e)\<rparr>
                    in (Success True, save_transaction (save_wallet s (wallet t) w2) tid t1)))"

text \<open>
  \<^verbatim>\<open>refund_transaction\<close> succeeds with the id of the refund transaction and the
  refunded amount. Its only test of the original transaction is that the row exists.
\<close>

definition refund_transaction ::
  "env \<Rightarrow> db \<Rightarrow> transaction_id \<Rightarrow> string \<Rightarrow> (transaction_id \<times> money) result \<times> db" where
  "refund_transaction e s tid reason = atomic s
     (case get_transaction s tid of
        None \<Rightarrow> (Failure ''Original transaction not found'' None, s)
      | Some original \<Rightarrow>
          (case wallets s (wallet original) of
             None \<Rightarrow> (Failure (str_exn RelatedObjectDoesNotExist) None, s)
           | Some w \<Rightarrow>
               let rec0 = new_transaction (wallet original) Refund (amount original)
                            (''Refund for ''
                               @ get_transaction_type_display (transaction_type original)
                               @ '' - '' @ reason)
                            (trade_id original) (available_balance w);
                   (rid, s1) = create_transaction s rec0;
                   w1 = w\<lparr>available_balance := available_balance w + amount original\<rparr>;
                   s2 = save_wallet s1 (wallet original) w1;
                   rec1 = rec0\<lparr>status := Completed,
                               balance_after := Some (available_balance w1),
                               completed_at := Some (now e)\<rparr>;
                   s3 = save_transaction s2 rid rec1;
                   s4 = save_transaction s3 tid (original\<lparr>status := Refunded\<rparr>)
               in (Success (rid, amount original), s4)))"

section \<open>Stripe webhook (apps/payment/views.py)\<close>

text \<open>
  The events the handler tells apart, with the \<^verbatim>\<open>transaction_id\<close> of the payment
  intent's metadata (absent or empty: \<open>None\<close>) and, for a succeeded intent, its
  \<^verbatim>\<open>latest_charge\<close>. The argument of the handler is \<open>None\<close> when
  \<^verbatim>\<open>construct_event\<close> rejects the payload or its signature. The result is the HTTP
  status of the response.
\<close>

datatype stripe_event =
    Payment_Intent_Succeeded "transaction_id option" "string option"
  | Payment_Intent_Payment_Failed "transaction_id option"
  | Other_Event

definition stripe_webhook :: "env \<Rightarrow> db \<Rightarrow> stripe_event option \<Rightarrow> nat result \<times> db" where
  "stripe_webhook e s event =
     (case event of
        None \<Rightarrow> (Success 400, s)
      | Some (Payment_Intent_Succeeded (Some tid) charge) \<Rightarrow>
          (case complete_deposit e s tid charge of
             (Raise x, s1) \<Rightarrow> (Raise x, s1)
           | (_, s1) \<Rightarrow> (Success 200, s1))
      | Some (Payment_Intent_Payment_Failed (Some tid)) \<Rightarrow>
          (case get_transaction s tid of
             None \<Rightarrow> (Success 200, s)
           | Some t \<Rightarrow> (Success 200, save_transaction s tid (t\<lparr>status := Failed\<rparr>)))
      | Some _ \<Rightarrow> (Success 200, s))"

section \<open>Sequences of operations\<close>

datatype operation =
    Create_Deposit_Intent env user_id money string string
  | Complete_Deposit env transaction_id "string option"
  | Escrow_Deposit_Op env user_id money string string
  | Release_Escrow env user_id money string bool string
  | Shipping_Payment_Op env user_id money string string
  | Create_Withdrawal env user_id money "nat option" string
  | Complete_Withdrawal env transaction_id
  | Refund_Transaction env transaction_id string
  | Stripe_Webhook env "stripe_event option"

fun apply_operation :: "db \<Rightarrow> operation \<Rightarrow> db" where
  "apply_operation s (Create_Deposit_Intent e u amt pm d) = snd (create_deposit_intent e s u amt pm d)"
| "apply_operation s (Complete_Deposit e tid ch) = snd (complete_deposit e s tid ch)"
| "apply_operation s (Escrow_Deposit_Op e u amt tr d) = snd (escrow_deposit e s u amt tr d)"
| "apply_operation s (Release_Escrow e u amt tr to_av d) = snd (release_escrow e s u amt tr to_av d)"
| "apply_operation s (Shipping_Payment_Op e u amt tr d) = snd (shipping_payment e s u amt tr d)"
| "apply_operation s (Create_Withdrawal e u amt b d) = snd (create_withdrawal e s u amt b d)"
| "apply_operation s (Complete_Withdrawal e tid) = snd (complete_withdrawal e s tid)"
| "apply_operation s (Refund_Transaction e tid r) = snd (refund_transaction e s tid r)"
| "apply_operation s (Stripe_Webhook e ev) = snd (stripe_webhook e s ev)"

text \<open>The database after a sequence of calls, made one after the other.\<close>

definition run :: "db \<Rightarrow> operation list \<Rightarrow> db" where
  "run s ops = foldl apply_operation s ops"

section \<open>Notions used by the properties\<close>

text \<open>
  The signed effect of a transaction on the available balance: a deposit credits the
  net amount, a release of escrow back to the wallet and a refund credit the amount,
  an escrow deposit, a shipping payment, a withdrawal and a fee debit it, and escrow
  paid out to a counterparty (\<open>Escrow_Refund\<close>) leaves the available balance as it is.
\<close>

fun signed_effect :: "WalletTransaction \<Rightarrow> money" where
  "signed_effect t =
     (case transaction_type t of
        Deposit \<Rightarrow> net_amount t
      | Withdrawal \<Rightarrow> - amount t
      | Escrow_Deposit \<Rightarrow> - amount t
      | Escrow_Release \<Rightarrow> amount t
      | Escrow_Refund \<Rightarrow> 0
      | Shipping_Payment \<Rightarrow> - amount t
      | Trade_Fee \<Rightarrow> - amount t
      | Refund \<Rightarrow> amount t)"

text \<open>Both snapshots are present and differ by the signed effect.\<close>

definition snapshots_agree :: "WalletTransaction \<Rightarrow> bool" where
  "snapshots_agree t \<longleftrightarrow>
     (case (balance_before t, balance_after t) of
        (Some b, Some a) \<Rightarrow> a - b = signed_effect t
      | _ \<Rightarrow> False)"

text \<open>
  The transaction types whose row is created and completed inside one atomic call;
  deposits and withdrawals are created by one call and completed by a later one.
\<close>

definition single_call_type :: "transaction_type \<Rightarrow> bool" where
  "single_call_type ty \<longleftrightarrow> ty \<noteq> Deposit \<and> ty \<noteq> Withdrawal"

text \<open>The terminal statuses of a transaction.\<close>

definition terminal :: "status \<Rightarrow> bool" where
  "terminal st \<longleftrightarrow> st = Completed \<or> st = Failed \<or> st = Cancelled \<or> st = Refunded"

text \<open>
  An environment in which Stripe answers every request, and a user's bank account that
  is active and the default but has not been verified.
\<close>

definition gateway_ok :: env where
  "gateway_ok =
     \<lparr>now = 0, customer_create = Inr ''cus_1'', payment_intent_create = Inr ''pi_1''\<rparr>"

definition unverified_bank :: BankAccount where
  "unverified_bank =
     \<lparr>bank_id = 0, user = 1, stripe_bank_account_id = ''ba_1'', bank_name = ''Bank'',
      is_verified = False, is_default = True, is_active = True\<rparr>"

text \<open>The id of a trade.\<close>

definition trade_1 :: string where
  "trade_1 = ''7d9f0c1e-5a3b-4c2d-8e6f-1a2b3c4d5e6f''"

definition verified_bank :: BankAccount where
  "verified_bank = unverified_bank\<lparr>is_verified := True\<rparr>"

text \<open>An environment in which Stripe declines the payment intent.\<close>

definition gateway_declined :: env where
  "gateway_declined = gateway_ok\<lparr>payment_intent_create := Inl ''card_declined''\<rparr>"

text \<open>
  The invariant that relates the two snapshots of a completed single-call transaction.
\<close>

definition snapshot_invariant :: "db \<Rightarrow> bool" where
  "snapshot_invariant s \<longleftrightarrow>
     (\<forall>t \<in> set (transactions s).
        status t = Completed \<longrightarrow> single_call_type (transaction_type t) \<longrightarrow> snapshots_agree t)"

subsection \<open>Scenarios\<close>

text \<open>User 1 deposits 50.00 into an empty database; the deposit is then completed.\<close>

definition deposit_50 :: db where
  "deposit_50 = run (initial_db []) [Create_Deposit_Intent gateway_ok 1 5000 ''pm_1'' []]"

definition deposit_50_completed :: db where
  "deposit_50_completed = run deposit_50 [Complete_Deposit gateway_ok 0 (Some ''ch_1'')]"

definition wallet_after_deposit_50 :: UserWallet where
  "wallet_after_deposit_50 =
     new_wallet\<lparr>stripe_customer_id := Some ''cus_1'', available_balance := 4775,
                total_deposited := 5000\<rparr>"

text \<open>
  User 1 deposits 100.00 (95.80 net), asks to withdraw 95.80, moves 95.80 into escrow
  while the withdrawal is processing, and the withdrawal is completed.
\<close>

definition overdraft_ops :: "operation list" where
  "overdraft_ops =
     [Create_Deposit_Intent gateway_ok 1 10000 ''pm_1'' [],
      Complete_Deposit gateway_ok 0 (Some ''ch_1''),
      Create_Withdrawal gateway_ok 1 9580 None [],
      Escrow_Deposit_Op gateway_ok 1 9580 trade_1 [],
      Complete_Withdrawal gateway_ok 1]"

text \<open>
  User 1 starts two deposits of 50.00; the first is completed between the creation and
  the completion of the second.
\<close>

definition interleaved_ops :: "operation list" where
  "interleaved_ops =
     [Create_Deposit_Intent gateway_ok 1 5000 ''pm_1'' [],
      Create_Deposit_Intent gateway_ok 1 5000 ''pm_1'' [],
      Complete_Deposit gateway_ok 0 None,
      Complete_Deposit gateway_ok 1 None]"

text \<open>The completed deposit of 50.00 is refunded.\<close>

definition refunded_once :: db where
  "refunded_once = run deposit_50_completed [Refund_Transaction gateway_ok 0 ''duplicate'']"

text \<open>A deposit of 50.00 that Stripe declined.\<close>

definition deposit_declined :: db where
  "deposit_declined =
     run (initial_db []) [Create_Deposit_Intent gateway_declined 1 5000 ''pm_1'' []]"

text \<open>The completed deposit of 50.00 of a user whose only bank account is unverified.\<close>

definition deposit_50_unverified :: db where
  "deposit_50_unverified =
     run (initial_db [unverified_bank])
       [Create_Deposit_Intent gateway_ok 1 5000 ''pm_1'' [],
        Complete_Deposit gateway_ok 0 (Some ''ch_1'')]"

text \<open>The wallet of user 1 and the deposit row between the two calls of that scenario.\<close>

definition wallet_before_deposit_50 :: UserWallet where
  "wallet_before_deposit_50 = new_wallet\<lparr>stripe_customer_id := Some ''cus_1''\<rparr>"

definition processing_deposit_50 :: WalletTransaction where
  "processing_deposit_50 =
     (new_transaction 1 Deposit 5000 ''Deposit to wallet'' None 0)
       \<lparr>status := Processing, stripe_payment_intent_id := Some ''pi_1'',
        platform_fee := 50, stripe_fee := 175\<rparr>"

text \<open>User 1 deposits 50.00, the deposit is completed, and 30.00 go into escrow.\<close>

definition escrow_ops :: "operation list" where
  "escrow_ops =
     [Create_Deposit_Intent gateway_ok 1 5000 ''pm_1'' [],
      Complete_Deposit gateway_ok 0 (Some ''ch_1''),
      Escrow_Deposit_Op gateway_ok 1 3000 trade_1 []]"

text \<open>
  The database of the overdraft scenario after the withdrawal has been requested, the
  wallet of user 1 in it and the withdrawal row.
\<close>

definition withdrawal_pending :: db where
  "withdrawal_pending = run (initial_db [verified_bank]) (take 3 overdraft_ops)"

definition wallet_after_deposit_100 :: UserWallet where
  "wallet_after_deposit_100 =
     new_wallet\<lparr>stripe_customer_id := Some ''cus_1'', available_balance := 9580,
                total_deposited := 10000\<rparr>"

definition processing_withdrawal :: WalletTransaction where
  "processing_withdrawal =
     (new_transaction 1 Withdrawal 9580 ''Withdrawal to Bank'' None 9580)
       \<lparr>status := Processing\<rparr>"

subsection \<open>Well-formed requests and the escrow invariant\<close>

text \<open>The amount of a request is positive, as every request serializer demands.\<close>

fun positive_amount :: "operation \<Rightarrow> bool" where
  "positive_amount (Create_Deposit_Intent e u amt pm d) \<longleftrightarrow> 0 < amt"
| "positive_amount (Escrow_Deposit_Op e u amt tr d) \<longleftrightarrow> 0 < amt"
| "positive_amount (Release_Escrow e u amt tr to_av d) \<longleftrightarrow> 0 < amt"
| "positive_amount (Shipping_Payment_Op e u amt tr d) \<longleftrightarrow> 0 < amt"
| "positive_amount (Create_Withdrawal e u amt b d) \<longleftrightarrow> 0 < amt"
| "positive_amount _ \<longleftrightarrow> True"

definition escrow_nonneg :: "db \<Rightarrow> bool" where
  "escrow_nonneg s \<longleftrightarrow> (\<forall>u w. wallets s u = Some w \<longrightarrow> 0 \<le> escrow_balance w)"

section \<open>Auxiliary facts\<close>


lemma get_or_create_wallet_tables:
  "get_or_create_wallet e s u = (r, s1) \<Longrightarrow>
     transactions s1 = transactions s \<and> bank_accounts s1 = bank_accounts s"
  by (auto simp: get_or_create_wallet_def save_wallet_def Let_def
           split: option.splits sum.splits if_splits)

lemma invariant_same:
  "snapshot_invariant s \<Longrightarrow> transactions s' = transactions s \<Longrightarrow> snapshot_invariant s'"
  by (simp add: snapshot_invariant_def)

lemma invariant_append:
  "snapshot_invariant s \<Longrightarrow> transactions s' = transactions s @ [t] \<Longrightarrow>
   (status t = Completed \<Longrightarrow> single_call_type (transaction_type t) \<Longrightarrow> snapshots_agree t) \<Longrightarrow>
   snapshot_invariant s'"
  by (auto simp: snapshot_invariant_def)

lemma invariant_update:
  "snapshot_invariant s \<Longrightarrow> transactions s' = (transactions s)[i := t] \<Longrightarrow>
   (status t = Completed \<Longrightarrow> single_call_type (transaction_type t) \<Longrightarrow> snapshots_agree t) \<Longrightarrow>
   snapshot_invariant s'"
  unfolding snapshot_invariant_def
  by (metis insertE set_update_subset_insert subsetD)

lemma atomic_cases:
  "snd (atomic s rs) = s \<or> snd (atomic s rs) = snd rs"
  by (cases rs) (auto simp: atomic_def split: result.splits)

lemma create_deposit_intent_invariant:
  assumes "snapshot_invariant s"
  shows "snapshot_invariant (snd (create_deposit_intent e s u amt pm d))"
proof (cases "get_or_create_wallet e s u")
  case (Pair r s1)
  then have same: "transactions s1 = transactions s"
    by (simp add: get_or_create_wallet_tables)
  show ?thesis
  proof (cases r)
    case (Inl x)
    with Pair same assms show ?thesis
      by (simp add: create_deposit_intent_def invariant_same)
  next
    case (Inr w)
    have "\<exists>t. transactions (snd (create_deposit_intent e s u amt pm d)) = transactions s @ [t]
             \<and> transaction_type t = Deposit"
      using Pair Inr same
      by (cases "payment_intent_create e")
         (simp_all add: create_deposit_intent_def create_transaction_def save_transaction_def
            new_transaction_def Let_def)
    then show ?thesis
      using assms by (auto intro: invariant_append simp: single_call_type_def)
  qed
qed


lemma complete_deposit_invariant:
  assumes "snapshot_invariant s"
  shows "snapshot_invariant (snd (complete_deposit e s tid ch))"
proof -
  have "transactions (snd (complete_deposit e s tid ch)) = transactions s
        \<or> (\<exists>t. transactions (snd (complete_deposit e s tid ch)) = (transactions s)[tid := t]
               \<and> transaction_type t = Deposit)"
    by (auto simp: complete_deposit_def atomic_def Let_def save_transaction_def save_wallet_def
             split: option.splits)
  then show ?thesis
    using assms by (auto intro: invariant_same invariant_update simp: single_call_type_def)
qed

lemma complete_withdrawal_invariant:
  assumes "snapshot_invariant s"
  shows "snapshot_invariant (snd (complete_withdrawal e s tid))"
proof -
  have "transactions (snd (complete_withdrawal e s tid)) = transactions s
        \<or> (\<exists>t. transactions (snd (complete_withdrawal e s tid)) = (transactions s)[tid := t]
               \<and> transaction_type t = Withdrawal)"
    by (auto simp: complete_withdrawal_def atomic_def Let_def save_transaction_def save_wallet_def
             split: option.splits)
  then show ?thesis
    using assms by (auto intro: invariant_same invariant_update simp: single_call_type_def)
qed

lemma create_withdrawal_invariant:
  assumes "snapshot_invariant s"
  shows "snapshot_invariant (snd (create_withdrawal e s u amt b d))"
proof (cases "get_or_create_wallet e s u")
  case (Pair r s1)
  then have same: "transactions s1 = transactions s"
    by (simp add: get_or_create_wallet_tables)
  have "transactions (snd (create_withdrawal e s u amt b d)) = transactions s
        \<or> (\<exists>t. transactions (snd (create_withdrawal e s u amt b d)) = transactions s @ [t]
               \<and> transaction_type t = Withdrawal)"
    using Pair same
    by (auto simp: create_withdrawal_def create_transaction_def save_transaction_def
          new_transaction_def Let_def split: sum.splits option.splits)
  then show ?thesis
    using assms by (auto intro: invariant_same invariant_append simp: single_call_type_def)
qed

lemma escrow_deposit_invariant:
  assumes "snapshot_invariant s"
  shows "snapshot_invariant (snd (escrow_deposit e s u amt tr d))"
proof (cases "get_or_create_wallet e s u")
  case (Pair r s1)
  then have same: "transactions s1 = transactions s"
    by (simp add: get_or_create_wallet_tables)
  have "transactions (snd (escrow_deposit e s u amt tr d)) = transactions s
        \<or> (\<exists>t. transactions (snd (escrow_deposit e s u amt tr d)) = transactions s @ [t]
               \<and> snapshots_agree t)"
    using Pair same
    by (auto simp: escrow_deposit_def atomic_def create_transaction_def save_transaction_def
          save_wallet_def move_to_escrow_def new_transaction_def snapshots_agree_def Let_def
          split: sum.splits)
  then show ?thesis
    using assms by (auto intro: invariant_same invariant_append)
qed

lemma release_escrow_invariant:
  assumes "snapshot_invariant s"
  shows "snapshot_invariant (snd (release_escrow e s u amt tr to_av d))"
proof (cases "get_or_create_wallet e s u")
  case (Pair r s1)
  then have same: "transactions s1 = transactions s"
    by (simp add: get_or_create_wallet_tables)
  have "transactions (snd (release_escrow e s u amt tr to_av d)) = transactions s
        \<or> (\<exists>t. transactions (snd (release_escrow e s u amt tr to_av d)) = transactions s @ [t]
               \<and> snapshots_agree t)"
    using Pair same
    by (auto simp: release_escrow_def atomic_def create_transaction_def save_transaction_def
          save_wallet_def release_from_escrow_def new_transaction_def snapshots_agree_def Let_def
          split: sum.splits)
  then show ?thesis
    using assms by (auto intro: invariant_same invariant_append)
qed

lemma shipping_payment_invariant:
  assumes "snapshot_invariant s"
  shows "snapshot_invariant (snd (shipping_payment e s u amt tr d))"
proof (cases "get_or_create_wallet e s u")
  case (Pair r s1)
  then have same: "transactions s1 = transactions s"
    by (simp add: get_or_create_wallet_tables)
  have "transactions (snd (shipping_payment e s u amt tr d)) = transactions s
        \<or> (\<exists>t. transactions (snd (shipping_payment e s u amt tr d)) = transactions s @ [t]
               \<and> snapshots_agree t)"
    using Pair same
    by (auto simp: shipping_payment_def atomic_def create_transaction_def save_transaction_def
          save_wallet_def new_transaction_def snapshots_agree_def Let_def
          split: sum.splits)
  then show ?thesis
    using assms by (auto intro: invariant_same invariant_append)
qed

lemma refund_transaction_invariant:
  assumes "snapshot_invariant s"
  shows "snapshot_invariant (snd (refund_transaction e s tid r))"
proof (cases "get_transaction s tid")
  case None
  then show ?thesis
    using assms by (simp add: refund_transaction_def atomic_def)
next
  case (Some original)
  show ?thesis
  proof (cases "wallets s (wallet original)")
    case None
    with Some show ?thesis
      using assms by (simp add: refund_transaction_def atomic_def)
  next
    case (Some w)
    let ?t = "(new_transaction (wallet original) Refund (amount original)
                 (''Refund for '' @ get_transaction_type_display (transaction_type original)
                    @ '' - '' @ r)
                 (trade_id original) (available_balance w))
              \<lparr>status := Completed,
               balance_after := Some (available_balance w + amount original),
               completed_at := Some (now e)\<rparr>"
    let ?mid = "s\<lparr>transactions := transactions s @ [?t]\<rparr>"
    have eq: "transactions (snd (refund_transaction e s tid r))
                = (transactions ?mid)[tid := original\<lparr>status := Refunded\<rparr>]"
      using \<open>get_transaction s tid = Some original\<close> Some
      by (simp add: refund_transaction_def atomic_def create_transaction_def
            save_transaction_def save_wallet_def Let_def)
    have "snapshots_agree ?t"
      by (simp add: snapshots_agree_def new_transaction_def)
    then have "snapshot_invariant ?mid"
      using assms by (auto intro: invariant_append)
    then show ?thesis
      using eq by (rule invariant_update) simp
  qed
qed

lemma stripe_webhook_invariant:
  assumes "snapshot_invariant s"
  shows "snapshot_invariant (snd (stripe_webhook e s ev))"
proof (cases ev)
  case None
  then show ?thesis using assms by (simp add: stripe_webhook_def)
next
  case (Some event)
  show ?thesis
  proof (cases event)
    case (Payment_Intent_Succeeded tid_opt charge)
    show ?thesis
    proof (cases tid_opt)
      case None
      with Some Payment_Intent_Succeeded show ?thesis
        using assms by (simp add: stripe_webhook_def)
    next
      case (Some tid)
      then have "snd (stripe_webhook e s ev) = snd (complete_deposit e s tid charge)"
        using \<open>ev = Some event\<close> Payment_Intent_Succeeded
        by (simp add: stripe_webhook_def split: prod.splits result.splits)
      then show ?thesis
        using complete_deposit_invariant [OF assms] by simp
    qed
  next
    case (Payment_Intent_Payment_Failed tid_opt)
    show ?thesis
    proof (cases tid_opt)
      case None
      with Some Payment_Intent_Payment_Failed show ?thesis
        using assms by (simp add: stripe_webhook_def)
    next
      case (Some tid)
      show ?thesis
      proof (cases "get_transaction s tid")
        case None
        then show ?thesis
          using \<open>ev = Some event\<close> Payment_Intent_Payment_Failed Some assms
          by (simp add: stripe_webhook_def)
      next
        case (Some t)
        then have "transactions (snd (stripe_webhook e s ev))
                     = (transactions s)[tid := t\<lparr>status := Failed\<rparr>]"
          using \<open>ev = Some event\<close> Payment_Intent_Payment_Failed \<open>tid_opt = Some tid\<close>
          by (simp add: stripe_webhook_def save_transaction_def)
        with assms show ?thesis
          by (rule invariant_update) simp
      qed
    qed
  next
    case Other_Event
    with Some show ?thesis using assms by (simp add: stripe_webhook_def)
  qed
qed

lemma apply_operation_invariant:
  "snapshot_invariant s \<Longrightarrow> snapshot_invariant (apply_operation s x)"
  by (cases x)
     (simp_all add: create_deposit_intent_invariant complete_deposit_invariant
        escrow_deposit_invariant release_escrow_invariant shipping_payment_invariant
        create_withdrawal_invariant complete_withdrawal_invariant refund_transaction_invariant
        stripe_webhook_invariant)

lemma run_invariant:
  "snapshot_invariant s \<Longrightarrow> snapshot_invariant (run s ops)"
  unfolding run_def
  by (induction ops arbitrary: s) (simp_all add: apply_operation_invariant)

lemma initial_invariant: "snapshot_invariant (initial_db banks)"
  by (simp add: snapshot_invariant_def initial_db_def)

lemma get_or_create_wallet_row:
  "get_or_create_wallet e s u = (Inr w, s1) \<Longrightarrow> wallets s1 u = Some w"
  by (auto simp: get_or_create_wallet_def save_wallet_def Let_def
           split: option.splits sum.splits if_splits)

lemma find_bank_account_None:
  "find_bank_account s u b = None \<longleftrightarrow>
     \<not> (\<exists>a \<in> set (bank_accounts s). user a = u \<and> is_active a
           \<and> (case b of Some i \<Rightarrow> bank_id a = i | None \<Rightarrow> is_default a))"
  by (cases b) (auto simp: find_bank_account_def find_None_iff)

lemma find_bank_account_Some:
  "find_bank_account s u b = Some a \<Longrightarrow>
     a \<in> set (bank_accounts s) \<and> user a = u \<and> is_active a
       \<and> (case b of Some i \<Rightarrow> bank_id a = i | None \<Rightarrow> is_default a)"
  by (cases b) (auto simp: find_bank_account_def find_Some_iff)

lemma find_bank_account_cong:
  "bank_accounts s1 = bank_accounts s \<Longrightarrow> find_bank_account s1 u b = find_bank_account s u b"
  by (simp add: find_bank_account_def split: option.splits)

lemma get_or_create_wallet_kept:
  "get_or_create_wallet e s u = (Inr w, s1) \<Longrightarrow> wallets s u = Some w0 \<Longrightarrow>
     w = w0\<lparr>stripe_customer_id := stripe_customer_id w\<rparr>"
  by (auto simp: get_or_create_wallet_def save_wallet_def Let_def
           split: option.splits sum.splits if_splits)

lemma get_or_create_wallet_existing:
  "wallets s u = Some w \<Longrightarrow> truthy (stripe_customer_id w) \<Longrightarrow>
     get_or_create_wallet e s u = (Inr w, s)"
  by (simp add: get_or_create_wallet_def)

lemma escrow_nonneg_same:
  "escrow_nonneg s \<Longrightarrow> wallets s' = wallets s \<Longrightarrow> escrow_nonneg s'"
  by (simp add: escrow_nonneg_def)

lemma escrow_nonneg_save:
  "escrow_nonneg s \<Longrightarrow> wallets s' = (wallets s)(u \<mapsto> w) \<Longrightarrow> 0 \<le> escrow_balance w \<Longrightarrow>
     escrow_nonneg s'"
  by (simp add: escrow_nonneg_def)

lemma get_or_create_wallet_escrow:
  assumes "escrow_nonneg s" and "get_or_create_wallet e s u = (r, s1)"
  shows "escrow_nonneg s1 \<and> (\<forall>w. r = Inr w \<longrightarrow> wallets s1 u = Some w)"
  using assms
  by (auto simp: get_or_create_wallet_def save_wallet_def Let_def escrow_nonneg_def
        new_wallet_def split: option.splits sum.splits if_splits)

lemma create_deposit_intent_escrow:
  assumes "escrow_nonneg s"
  shows "escrow_nonneg (snd (create_deposit_intent e s u amt pm d))"
proof (cases "get_or_create_wallet e s u")
  case (Pair r s1)
  note g = get_or_create_wallet_escrow [OF assms Pair]
  have "wallets (snd (create_deposit_intent e s u amt pm d)) = wallets s1"
    using Pair
    by (auto simp: create_deposit_intent_def create_transaction_def save_transaction_def
          Let_def split: sum.splits)
  with g show ?thesis by (auto intro: escrow_nonneg_same)
qed

lemma create_withdrawal_escrow:
  assumes "escrow_nonneg s"
  shows "escrow_nonneg (snd (create_withdrawal e s u amt b d))"
proof (cases "get_or_create_wallet e s u")
  case (Pair r s1)
  note g = get_or_create_wallet_escrow [OF assms Pair]
  have "wallets (snd (create_withdrawal e s u amt b d)) = wallets s1"
    using Pair
    by (auto simp: create_withdrawal_def create_transaction_def save_transaction_def
          Let_def split: sum.splits option.splits)
  with g show ?thesis by (auto intro: escrow_nonneg_same)
qed

lemma complete_deposit_escrow:
  assumes "escrow_nonneg s"
  shows "escrow_nonneg (snd (complete_deposit e s tid ch))"
  using assms
  by (auto simp: complete_deposit_def atomic_def Let_def save_transaction_def save_wallet_def
        escrow_nonneg_def split: option.splits)

lemma complete_withdrawal_escrow:
  assumes "escrow_nonneg s"
  shows "escrow_nonneg (snd (complete_withdrawal e s tid))"
  using assms
  by (auto simp: complete_withdrawal_def atomic_def Let_def save_transaction_def save_wallet_def
        escrow_nonneg_def split: option.splits)

lemma refund_transaction_escrow:
  assumes "escrow_nonneg s"
  shows "escrow_nonneg (snd (refund_transaction e s tid r))"
  using assms
  by (auto simp: refund_transaction_def atomic_def Let_def create_transaction_def
        save_transaction_def save_wallet_def escrow_nonneg_def split: option.splits)

lemma stripe_webhook_wallets:
  "wallets (snd (stripe_webhook e s ev)) = wallets s
   \<or> (\<exists>tid ch. ev = Some (Payment_Intent_Succeeded (Some tid) ch)
         \<and> snd (stripe_webhook e s ev) = snd (complete_deposit e s tid ch))"
proof (cases ev)
  case None
  then show ?thesis by (simp add: stripe_webhook_def)
next
  case (Some event)
  show ?thesis
  proof (cases event)
    case (Payment_Intent_Succeeded tid_opt charge)
    with Some show ?thesis
      by (cases tid_opt)
         (simp_all add: stripe_webhook_def split: prod.splits result.splits)
  next
    case (Payment_Intent_Payment_Failed tid_opt)
    with Some show ?thesis
      by (cases tid_opt)
         (simp_all add: stripe_webhook_def save_transaction_def split: option.splits)
  next
    case Other_Event
    with Some show ?thesis by (simp add: stripe_webhook_def)
  qed
qed

lemma stripe_webhook_escrow:
  assumes "escrow_nonneg s"
  shows "escrow_nonneg (snd (stripe_webhook e s ev))"
  using stripe_webhook_wallets [of e s ev] assms complete_deposit_escrow [OF assms]
  by (auto intro: escrow_nonneg_same)

lemma shipping_payment_escrow:
  assumes "escrow_nonneg s"
  shows "escrow_nonneg (snd (shipping_payment e s u amt tr d))"
proof (cases "get_or_create_wallet e s u")
  case (Pair r s1)
  note g = get_or_create_wallet_escrow [OF assms Pair]
  show ?thesis
  proof (cases r)
    case (Inl x)
    with Pair assms show ?thesis by (simp add: shipping_payment_def atomic_def)
  next
    case (Inr w)
    with g have "wallets s1 u = Some w" "escrow_nonneg s1" by simp_all
    then show ?thesis
      using Pair Inr
      by (auto simp: shipping_payment_def atomic_def create_transaction_def
            save_transaction_def save_wallet_def Let_def escrow_nonneg_def)
  qed
qed

lemma escrow_deposit_escrow:
  assumes "escrow_nonneg s" and "0 < amt"
  shows "escrow_nonneg (snd (escrow_deposit e s u amt tr d))"
proof (cases "get_or_create_wallet e s u")
  case (Pair r s1)
  note g = get_or_create_wallet_escrow [OF assms(1) Pair]
  show ?thesis
  proof (cases r)
    case (Inl x)
    with Pair assms show ?thesis by (simp add: escrow_deposit_def atomic_def)
  next
    case (Inr w)
    with g have "wallets s1 u = Some w" "escrow_nonneg s1" by simp_all
    then have "0 \<le> escrow_balance w" "escrow_nonneg s1"
      by (auto simp: escrow_nonneg_def)
    then show ?thesis
      using Pair Inr assms(2)
      by (auto simp: escrow_deposit_def atomic_def create_transaction_def
            save_transaction_def save_wallet_def move_to_escrow_def Let_def escrow_nonneg_def)
  qed
qed

lemma release_escrow_escrow:
  assumes "escrow_nonneg s"
  shows "escrow_nonneg (snd (release_escrow e s u amt tr to_av d))"
proof (cases "get_or_create_wallet e s u")
  case (Pair r s1)
  note g = get_or_create_wallet_escrow [OF assms(1) Pair]
  show ?thesis
  proof (cases r)
    case (Inl x)
    with Pair assms show ?thesis by (simp add: release_escrow_def atomic_def)
  next
    case (Inr w)
    with g have "escrow_nonneg s1" by simp
    then show ?thesis
      using Pair Inr
      by (auto simp: release_escrow_def atomic_def create_transaction_def
            save_transaction_def save_wallet_def release_from_escrow_def Let_def
            escrow_nonneg_def)
  qed
qed

lemma apply_operation_escrow:
  "escrow_nonneg s \<Longrightarrow> positive_amount x \<Longrightarrow> escrow_nonneg (apply_operation s x)"
  by (cases x)
     (simp_all add: create_deposit_intent_escrow complete_deposit_escrow
        escrow_deposit_escrow release_escrow_escrow shipping_payment_escrow
        create_withdrawal_escrow complete_withdrawal_escrow refund_transaction_escrow
        stripe_webhook_escrow)

lemma run_escrow:
  "escrow_nonneg s \<Longrightarrow> list_all positive_amount ops \<Longrightarrow> escrow_nonneg (run s ops)"
  unfolding run_def
  by (induction ops arbitrary: s) (simp_all add: apply_operation_escrow)

lemma escrow_nonneg_reachable:
  "list_all positive_amount ops \<Longrightarrow> escrow_nonneg (run (initial_db banks) ops)"
  by (rule run_escrow) (simp_all add: escrow_nonneg_def initial_db_def)

subsection \<open>Facts about the scenarios\<close>

lemma deposit_50_facts:
  "get_transaction deposit_50 0 = Some processing_deposit_50"
  "transaction_type processing_deposit_50 = Deposit"
  "status processing_deposit_50 = Processing"
  "wallets deposit_50 (wallet processing_deposit_50) = Some wallet_before_deposit_50"
  "balance_before processing_deposit_50 = Some (available_balance wallet_before_deposit_50)"
  by code_simp+

lemma withdrawal_pending_facts:
  "get_transaction withdrawal_pending 1 = Some processing_withdrawal"
  "transaction_type processing_withdrawal = Withdrawal"
  "status processing_withdrawal = Processing"
  "wallets withdrawal_pending (wallet processing_withdrawal) = Some wallet_after_deposit_100"
  "balance_before processing_withdrawal = Some (available_balance wallet_after_deposit_100)"
  by code_simp+

lemma deposit_50_completed_wallet:
  "get_or_create_wallet gateway_ok deposit_50_completed 1
     = (Inr wallet_after_deposit_50, deposit_50_completed)"
  by (rule get_or_create_wallet_existing; code_simp)

lemma deposit_50_unverified_wallet:
  "get_or_create_wallet gateway_ok deposit_50_unverified 1
     = (Inr wallet_after_deposit_50, deposit_50_unverified)"
  by (rule get_or_create_wallet_existing; code_simp)

section \<open>Properties of the ledger\<close>

text \<open>
  C1. The wallet invariant \<open>available_balance \<ge> 0\<close> does not survive
  \<^verbatim>\<open>complete_withdrawal\<close>, which subtracts the amount without looking at the
  balance. From an empty database user 1 deposits 100.00 (95.80 net), requests a
  withdrawal of 95.80 to a verified account and, while it is processing, places 95.80
  in escrow, which leaves 0.00 available; completing the withdrawal then returns
  \<^verbatim>\<open>True\<close> and leaves the available balance at \<open>-95.80\<close>.
\<close>

theorem complete_withdrawal_overdraws:
  "fst (complete_withdrawal gateway_ok (run (initial_db [verified_bank]) (butlast overdraft_ops)) 1)
     = Success True
   \<and> map_option available_balance
       (wallets (run (initial_db [verified_bank]) (butlast overdraft_ops)) 1) = Some 0
   \<and> map_option available_balance
       (wallets (run (initial_db [verified_bank]) overdraft_ops) 1) = Some (- 9580)"
  by code_simp

text \<open>
  C2, as stated, fails when another operation changes the balance between the creation
  and the completion of a deposit. Two deposits of 50.00 (47.75 net) are started on an
  empty wallet, so both rows hold \<open>balance_before = 0.00\<close>; after the first has been
  completed the completion of the second stores \<open>balance_after = 95.50\<close>, and the
  difference of its snapshots is 95.50, not its net amount 47.75.
\<close>

theorem interleaved_deposit_snapshots:
  "status (transactions (run (initial_db []) interleaved_ops) ! 1) = Completed
   \<and> transaction_type (transactions (run (initial_db []) interleaved_ops) ! 1) = Deposit
   \<and> balance_before (transactions (run (initial_db []) interleaved_ops) ! 1) = Some 0
   \<and> balance_after (transactions (run (initial_db []) interleaved_ops) ! 1) = Some 9550
   \<and> net_amount (transactions (run (initial_db []) interleaved_ops) ! 1) = 4775
   \<and> signed_effect (transactions (run (initial_db []) interleaved_ops) ! 1) = 4775
   \<and> \<not> snapshots_agree (transactions (run (initial_db []) interleaved_ops) ! 1)"
  by code_simp

text \<open>
  C2, amended. After any sequence of ledger operations on an empty database, every
  completed transaction whose type is not deposit or withdrawal (its row is created and
  completed inside one call) has \<open>balance_after - balance_before\<close> equal to the signed
  effect of its type. Completing a processing deposit (withdrawal) keeps
  \<open>balance_before\<close> and sets \<open>balance_after\<close> to the wallet's available balance at
  completion plus the net amount (minus the amount), so the snapshots of the completed
  row differ by the signed effect exactly when the available balance at completion is
  the \<open>balance_before\<close> taken at creation.
\<close>

theorem completed_snapshots:
  "(\<forall>t \<in> set (transactions (run (initial_db banks) ops)).
      status t = Completed \<longrightarrow> single_call_type (transaction_type t) \<longrightarrow> snapshots_agree t)
   \<and> (get_transaction s tid = Some t \<and> status t = Processing
        \<and> wallets s (wallet t) = Some w \<and> transaction_type t = Deposit \<longrightarrow>
      (\<exists>s1 t1. complete_deposit e s tid ch = (Success True, s1)
         \<and> get_transaction s1 tid = Some t1 \<and> status t1 = Completed
         \<and> balance_before t1 = balance_before t
         \<and> balance_after t1 = Some (available_balance w + net_amount t)
         \<and> (snapshots_agree t1 \<longleftrightarrow> balance_before t = Some (available_balance w))))
   \<and> (get_transaction s tid = Some t \<and> status t = Processing
        \<and> wallets s (wallet t) = Some w \<and> transaction_type t = Withdrawal \<longrightarrow>
      (\<exists>s1 t1. complete_withdrawal e s tid = (Success True, s1)
         \<and> get_transaction s1 tid = Some t1 \<and> status t1 = Completed
         \<and> balance_before t1 = balance_before t
         \<and> balance_after t1 = Some (available_balance w - amount t)
         \<and> (snapshots_agree t1 \<longleftrightarrow> balance_before t = Some (available_balance w))))"
proof (intro conjI impI)
  have "snapshot_invariant (run (initial_db banks) ops)"
    by (rule run_invariant) (rule initial_invariant)
  then show "\<forall>t \<in> set (transactions (run (initial_db banks) ops)).
      status t = Completed \<longrightarrow> single_call_type (transaction_type t) \<longrightarrow> snapshots_agree t"
    by (simp add: snapshot_invariant_def)
next
  assume a: "get_transaction s tid = Some t \<and> status t = Processing
        \<and> wallets s (wallet t) = Some w \<and> transaction_type t = Deposit"
  then have lt: "tid < length (transactions s)"
    by (simp add: get_transaction_def split: if_splits)
  let ?t1 = "t\<lparr>status := Completed, stripe_charge_id := ch,
                balance_after := Some (available_balance w + net_amount t),
                completed_at := Some (now e)\<rparr>"
  let ?s1 = "save_transaction
               (save_wallet s (wallet t)
                  (w\<lparr>available_balance := available_balance w + net_amount t,
                     total_deposited := total_deposited w + amount t\<rparr>)) tid ?t1"
  have call: "complete_deposit e s tid ch = (Success True, ?s1)"
    using a by (simp add: complete_deposit_def atomic_def Let_def)
  have got: "get_transaction ?s1 tid = Some ?t1"
    using lt by (simp add: get_transaction_def save_transaction_def save_wallet_def)
  have agree: "snapshots_agree ?t1 \<longleftrightarrow> balance_before t = Some (available_balance w)"
    using a by (cases "balance_before t") (auto simp: snapshots_agree_def net_amount_def)
  from call got agree
  show "\<exists>s1 t1. complete_deposit e s tid ch = (Success True, s1)
         \<and> get_transaction s1 tid = Some t1 \<and> status t1 = Completed
         \<and> balance_before t1 = balance_before t
         \<and> balance_after t1 = Some (available_balance w + net_amount t)
         \<and> (snapshots_agree t1 \<longleftrightarrow> balance_before t = Some (available_balance w))"
    by (intro exI [of _ ?s1] exI [of _ ?t1]) simp
next
  assume a: "get_transaction s tid = Some t \<and> status t = Processing
        \<and> wallets s (wallet t) = Some w \<and> transaction_type t = Withdrawal"
  then have lt: "tid < length (transactions s)"
    by (simp add: get_transaction_def split: if_splits)
  let ?t1 = "t\<lparr>status := Completed,
                balance_after := Some (available_balance w - amount t),
                completed_at := Some (now e)\<rparr>"
  let ?s1 = "save_transaction
               (save_wallet s (wallet t)
                  (w\<lparr>available_balance := available_balance w - amount t,
                     total_withdrawn := total_withdrawn w + amount t\<rparr>)) tid ?t1"
  have call: "complete_withdrawal e s tid = (Success True, ?s1)"
    using a by (simp add: complete_withdrawal_def atomic_def Let_def)
  have got: "get_transaction ?s1 tid = Some ?t1"
    using lt by (simp add: get_transaction_def save_transaction_def save_wallet_def)
  have agree: "snapshots_agree ?t1 \<longleftrightarrow> balance_before t = Some (available_balance w)"
    using a by (cases "balance_before t") (auto simp: snapshots_agree_def)
  from call got agree
  show "\<exists>s1 t1. complete_withdrawal e s tid = (Success True, s1)
         \<and> get_transaction s1 tid = Some t1 \<and> status t1 = Completed
         \<and> balance_before t1 = balance_before t
         \<and> balance_after t1 = Some (available_balance w - amount t)
         \<and> (snapshots_agree t1 \<longleftrightarrow> balance_before t = Some (available_balance w))"
    by (intro exI [of _ ?s1] exI [of _ ?t1]) simp
qed

text \<open>
  The amended C2 at concrete inputs: the escrow deposit of 30.00 after a completed
  deposit of 50.00, the completion of that deposit, and the completion of a withdrawal
  of 95.80.
\<close>

theorem completed_snapshots_witness:
  "transactions (run (initial_db []) escrow_ops) ! 1 \<in> set (transactions (run (initial_db []) escrow_ops))
   \<and> status (transactions (run (initial_db []) escrow_ops) ! 1) = Completed
   \<and> single_call_type (transaction_type (transactions (run (initial_db []) escrow_ops) ! 1))
   \<and> snapshots_agree (transactions (run (initial_db []) escrow_ops) ! 1)
   \<and> get_transaction deposit_50 0 = Some processing_deposit_50
   \<and> status processing_deposit_50 = Processing
   \<and> wallets deposit_50 (wallet processing_deposit_50) = Some wallet_before_deposit_50
   \<and> transaction_type processing_deposit_50 = Deposit
   \<and> (\<exists>s1 t1. complete_deposit gateway_ok deposit_50 0 (Some ''ch_1'') = (Success True, s1)
         \<and> get_transaction s1 0 = Some t1 \<and> status t1 = Completed \<and> snapshots_agree t1)
   \<and> get_transaction withdrawal_pending 1 = Some processing_withdrawal
   \<and> status processing_withdrawal = Processing
   \<and> wallets withdrawal_pending (wallet processing_withdrawal) = Some wallet_after_deposit_100
   \<and> transaction_type processing_withdrawal = Withdrawal
   \<and> (\<exists>s1 t1. complete_withdrawal gateway_ok withdrawal_pending 1 = (Success True, s1)
         \<and> get_transaction s1 1 = Some t1 \<and> status t1 = Completed \<and> snapshots_agree t1)"
proof -
  have h1: "transactions (run (initial_db []) escrow_ops) ! 1
              \<in> set (transactions (run (initial_db []) escrow_ops))"
    "status (transactions (run (initial_db []) escrow_ops) ! 1) = Completed"
    "single_call_type (transaction_type (transactions (run (initial_db []) escrow_ops) ! 1))"
    by code_simp+
  note d = completed_snapshots [where banks = "[]" and ops = escrow_ops and s = deposit_50
      and tid = 0 and t = processing_deposit_50 and w = wallet_before_deposit_50
      and e = gateway_ok and ch = "Some ''ch_1''"]
  note w = completed_snapshots [where banks = "[]" and ops = escrow_ops
      and s = withdrawal_pending and tid = 1 and t = processing_withdrawal
      and w = wallet_after_deposit_100 and e = gateway_ok and ch = None]
  from d h1 have c1: "snapshots_agree (transactions (run (initial_db []) escrow_ops) ! 1)"
    by blast
  from d deposit_50_facts
  have c2: "\<exists>s1 t1. complete_deposit gateway_ok deposit_50 0 (Some ''ch_1'') = (Success True, s1)
         \<and> get_transaction s1 0 = Some t1 \<and> status t1 = Completed \<and> snapshots_agree t1"
    by blast
  from w withdrawal_pending_facts
  have c3: "\<exists>s1 t1. complete_withdrawal gateway_ok withdrawal_pending 1 = (Success True, s1)
         \<and> get_transaction s1 1 = Some t1 \<and> status t1 = Completed \<and> snapshots_agree t1"
    by blast
  from h1 c1 c2 c3 deposit_50_facts withdrawal_pending_facts show ?thesis by blast
qed

text \<open>
  C3. For a deposit in status processing (whose wallet row exists, as the foreign key
  guarantees), the first \<^verbatim>\<open>complete_deposit\<close> returns \<^verbatim>\<open>True\<close> and credits the
  net amount to \<open>available_balance\<close> and the amount to \<open>total_deposited\<close>; a second
  call with the same id returns \<^verbatim>\<open>False\<close> and leaves the database as it is.
  \<^verbatim>\<open>complete_deposit\<close> also returns \<^verbatim>\<open>False\<close> and changes nothing when the id is
  unknown, the row is not a deposit, or its status is not processing.
\<close>

theorem complete_deposit_once:
  "(get_transaction s tid = Some t \<and> transaction_type t = Deposit \<and> status t = Processing
      \<and> wallets s (wallet t) = Some w \<longrightarrow>
    (\<exists>s1. complete_deposit e s tid ch = (Success True, s1)
       \<and> wallets s1 (wallet t) =
           Some (w\<lparr>available_balance := available_balance w + net_amount t,
                   total_deposited := total_deposited w + amount t\<rparr>)
       \<and> complete_deposit e' s1 tid ch' = (Success False, s1)))
   \<and> (get_transaction s tid = None
      \<or> (\<exists>t'. get_transaction s tid = Some t'
             \<and> (transaction_type t' \<noteq> Deposit \<or> status t' \<noteq> Processing)) \<longrightarrow>
      complete_deposit e s tid ch = (Success False, s))"
proof (intro conjI impI)
  assume a: "get_transaction s tid = Some t \<and> transaction_type t = Deposit
    \<and> status t = Processing \<and> wallets s (wallet t) = Some w"
  let ?w = "w\<lparr>available_balance := available_balance w + net_amount t,
               total_deposited := total_deposited w + amount t\<rparr>"
  let ?t = "t\<lparr>status := Completed, stripe_charge_id := ch,
               balance_after := Some (available_balance w + net_amount t),
               completed_at := Some (now e)\<rparr>"
  let ?s1 = "save_transaction (save_wallet s (wallet t) ?w) tid ?t"
  have first: "complete_deposit e s tid ch = (Success True, ?s1)"
    using a by (simp add: complete_deposit_def atomic_def Let_def)
  have lt: "tid < length (transactions s)"
    using a by (simp add: get_transaction_def split: if_splits)
  have got: "get_transaction ?s1 tid = Some ?t"
    using lt by (simp add: get_transaction_def save_transaction_def save_wallet_def)
  have second: "complete_deposit e' ?s1 tid ch' = (Success False, ?s1)"
    unfolding complete_deposit_def got by (simp add: atomic_def)
  have row: "wallets ?s1 (wallet t) = Some ?w"
    by (simp add: save_transaction_def save_wallet_def)
  from first second row
  show "\<exists>s1. complete_deposit e s tid ch = (Success True, s1)
       \<and> wallets s1 (wallet t) = Some ?w
       \<and> complete_deposit e' s1 tid ch' = (Success False, s1)"
    by blast
next
  assume "get_transaction s tid = None
      \<or> (\<exists>t'. get_transaction s tid = Some t'
             \<and> (transaction_type t' \<noteq> Deposit \<or> status t' \<noteq> Processing))"
  then show "complete_deposit e s tid ch = (Success False, s)"
    by (auto simp: complete_deposit_def atomic_def)
qed

text \<open>
  C3 at the processing deposit of 50.00 and at the unknown transaction id 7.
\<close>

theorem complete_deposit_once_witness:
  "get_transaction deposit_50 0 = Some processing_deposit_50
   \<and> transaction_type processing_deposit_50 = Deposit
   \<and> status processing_deposit_50 = Processing
   \<and> wallets deposit_50 (wallet processing_deposit_50) = Some wallet_before_deposit_50
   \<and> (\<exists>s1. complete_deposit gateway_ok deposit_50 0 (Some ''ch_1'') = (Success True, s1)
        \<and> wallets s1 (wallet processing_deposit_50) =
            Some (wallet_before_deposit_50
                    \<lparr>available_balance := available_balance wallet_before_deposit_50
                                             + net_amount processing_deposit_50,
                     total_deposited := total_deposited wallet_before_deposit_50
                                           + amount processing_deposit_50\<rparr>)
        \<and> complete_deposit gateway_ok s1 0 (Some ''ch_1'') = (Success False, s1))
   \<and> get_transaction deposit_50 7 = None
   \<and> complete_deposit gateway_ok deposit_50 7 None = (Success False, deposit_50)"
proof -
  have none: "get_transaction deposit_50 7 = None"
    by code_simp
  from complete_deposit_once [where s = deposit_50 and tid = 0 and t = processing_deposit_50
      and w = wallet_before_deposit_50 and e = gateway_ok and ch = "Some ''ch_1''"
      and e' = gateway_ok and ch' = "Some ''ch_1''"] deposit_50_facts
  have c1: "\<exists>s1. complete_deposit gateway_ok deposit_50 0 (Some ''ch_1'') = (Success True, s1)
        \<and> wallets s1 (wallet processing_deposit_50) =
            Some (wallet_before_deposit_50
                    \<lparr>available_balance := available_balance wallet_before_deposit_50
                                             + net_amount processing_deposit_50,
                     total_deposited := total_deposited wallet_before_deposit_50
                                           + amount processing_deposit_50\<rparr>)
        \<and> complete_deposit gateway_ok s1 0 (Some ''ch_1'') = (Success False, s1)"
    by blast
  from complete_deposit_once [where s = deposit_50 and tid = 7 and e = gateway_ok
      and ch = None] none
  have c2: "complete_deposit gateway_ok deposit_50 7 None = (Success False, deposit_50)"
    by blast
  from deposit_50_facts none c1 c2 show ?thesis by blast
qed

text \<open>
  C4. \<^verbatim>\<open>refund_transaction\<close> does not look at the status of the original
  transaction. After the completed deposit of 50.00 has been refunded (status
  refunded, balance 97.75), refunding it again succeeds, appends a third row and
  credits another 50.00 (balance 147.75), where the property demands a failure that
  leaves the balance alone.
\<close>

theorem refund_twice:
  "status (transactions deposit_50_completed ! 0) = Completed
   \<and> map_option available_balance (wallets deposit_50_completed 1) = Some 4775
   \<and> status (transactions refunded_once ! 0) = Refunded
   \<and> map_option available_balance (wallets refunded_once 1) = Some 9775
   \<and> fst (refund_transaction gateway_ok refunded_once 0 ''again'') = Success (2, 5000)
   \<and> map_option available_balance
       (wallets (snd (refund_transaction gateway_ok refunded_once 0 ''again'')) 1) = Some 14775
   \<and> length (transactions (snd (refund_transaction gateway_ok refunded_once 0 ''again''))) = 3"
  by code_simp

text \<open>
  C5. Let \<open>w\<close> be the wallet that \<^verbatim>\<open>escrow_deposit\<close> works on (the row of the user,
  with its Stripe customer), with a non-negative escrow balance, and let
  \<open>0 < amt \<le> available_balance w\<close>. Then \<^verbatim>\<open>escrow_deposit\<close> of \<open>amt\<close> followed by
  \<^verbatim>\<open>release_escrow\<close> of \<open>amt\<close> back to the available balance both succeed and
  leave the wallet row equal to \<open>w\<close>: the available and the escrow balance are the
  ones from before the escrow deposit. The escrow balance of every wallet is
  non-negative after any sequence of requests with positive amounts
  (\<open>escrow_nonneg_reachable\<close>).
\<close>

theorem escrow_round_trip:
  assumes "get_or_create_wallet e1 s u = (Inr w, s0)"
    and "truthy (stripe_customer_id w)"
    and "0 < amt" and "amt \<le> available_balance w" and "0 \<le> escrow_balance w"
  shows "\<exists>r1 s1 r2 s2.
           escrow_deposit e1 s u amt tr1 d1 = (Success r1, s1) \<and>
           release_escrow e2 s1 u amt tr2 True d2 = (Success r2, s2) \<and>
           wallets s2 u = Some w \<and>
           (\<forall>w0. wallets s u = Some w0 \<longrightarrow>
              available_balance w = available_balance w0 \<and>
              escrow_balance w = escrow_balance w0)"
proof -
  let ?w1 = "w\<lparr>available_balance := available_balance w - amt,
                escrow_balance := escrow_balance w + amt\<rparr>"
  obtain r1 s1 where dep: "escrow_deposit e1 s u amt tr1 d1 = (Success r1, s1)"
    and row1: "wallets s1 u = Some ?w1"
    using assms(1,4)
    by (simp add: escrow_deposit_def atomic_def can_place_in_escrow_def move_to_escrow_def
          create_transaction_def save_transaction_def save_wallet_def Let_def)
  have goc: "get_or_create_wallet e2 s1 u = (Inr ?w1, s1)"
    using row1 assms(2) by (simp add: get_or_create_wallet_existing)
  obtain r2 s2 where rel: "release_escrow e2 s1 u amt tr2 True d2 = (Success r2, s2)"
    and row2: "wallets s2 u = Some w"
    using goc assms(5)
    by (simp add: release_escrow_def atomic_def release_from_escrow_def
          create_transaction_def save_transaction_def save_wallet_def Let_def)
  have before: "\<forall>w0. wallets s u = Some w0 \<longrightarrow>
              available_balance w = available_balance w0 \<and>
              escrow_balance w = escrow_balance w0"
  proof (intro allI impI)
    fix w0 assume "wallets s u = Some w0"
    from get_or_create_wallet_kept [OF assms(1) this]
    have "w = w0\<lparr>stripe_customer_id := stripe_customer_id w\<rparr>" .
    then have "available_balance w = available_balance (w0\<lparr>stripe_customer_id := stripe_customer_id w\<rparr>)"
      "escrow_balance w = escrow_balance (w0\<lparr>stripe_customer_id := stripe_customer_id w\<rparr>)"
      by simp_all
    then show "available_balance w = available_balance w0 \<and>
              escrow_balance w = escrow_balance w0"
      by simp
  qed
  from dep rel row2 before show ?thesis by blast
qed

text \<open>
  C5 at the wallet holding 47.75 after the completed deposit of 50.00, with 30.00 moved
  to escrow and back.
\<close>

theorem escrow_round_trip_witness:
  "get_or_create_wallet gateway_ok deposit_50_completed 1
     = (Inr wallet_after_deposit_50, deposit_50_completed)
   \<and> truthy (stripe_customer_id wallet_after_deposit_50)
   \<and> (0::money) < 3000 \<and> 3000 \<le> available_balance wallet_after_deposit_50
   \<and> 0 \<le> escrow_balance wallet_after_deposit_50
   \<and> (\<exists>r1 s1 r2 s2.
         escrow_deposit gateway_ok deposit_50_completed 1 3000 trade_1 [] = (Success r1, s1)
         \<and> release_escrow gateway_ok s1 1 3000 trade_1 True [] = (Success r2, s2)
         \<and> wallets s2 1 = Some wallet_after_deposit_50)"
proof -
  have h: "truthy (stripe_customer_id wallet_after_deposit_50)" "(0::money) < 3000"
    "3000 \<le> available_balance wallet_after_deposit_50"
    "0 \<le> escrow_balance wallet_after_deposit_50"
    by code_simp+
  from escrow_round_trip [OF deposit_50_completed_wallet h,
      where ?e2.0 = gateway_ok and ?tr1.0 = "trade_1" and ?d1.0 = "[]"
        and ?tr2.0 = "trade_1" and ?d2.0 = "[]"]
  have "\<exists>r1 s1 r2 s2.
         escrow_deposit gateway_ok deposit_50_completed 1 3000 trade_1 [] = (Success r1, s1)
         \<and> release_escrow gateway_ok s1 1 3000 trade_1 True [] = (Success r2, s2)
         \<and> wallets s2 1 = Some wallet_after_deposit_50"
    by blast
  with deposit_50_completed_wallet h show ?thesis by blast
qed

text \<open>
  C6. Let \<open>w\<close> be the wallet that \<^verbatim>\<open>escrow_deposit\<close> works on and \<open>s0\<close> the
  database once that wallet has been fetched. An escrow deposit of exactly
  \<open>available_balance w\<close> succeeds, leaves \<open>available_balance = 0\<close> and adds the
  amount to the escrow balance. An escrow deposit of one cent more returns the failure
  \<^verbatim>\<open>'Insufficient available balance for escrow deposit'\<close> and the database \<open>s0\<close>:
  no transaction row has been written, the bank accounts and the other wallets are
  untouched, and the wallet of the user differs from the row it had before, if it had
  one, in nothing but the Stripe customer id.
\<close>

theorem escrow_deposit_boundary:
  assumes "get_or_create_wallet e s u = (Inr w, s0)"
  shows "(\<exists>tid s1.
            escrow_deposit e s u (available_balance w) tr d
              = (Success (tid, escrow_balance w + available_balance w), s1)
            \<and> wallets s1 u =
                Some (w\<lparr>available_balance := 0,
                        escrow_balance := escrow_balance w + available_balance w\<rparr>))
         \<and> escrow_deposit e s u (available_balance w + 1) tr d
             = (Failure ''Insufficient available balance for escrow deposit'' None, s0)
         \<and> wallets s0 u = Some w
         \<and> transactions s0 = transactions s
         \<and> bank_accounts s0 = bank_accounts s
         \<and> (\<forall>v. v \<noteq> u \<longrightarrow> wallets s0 v = wallets s v)
         \<and> (\<forall>w0. wallets s u = Some w0 \<longrightarrow>
               w = w0\<lparr>stripe_customer_id := stripe_customer_id w\<rparr>)"
proof (intro conjI)
  show "\<exists>tid s1.
            escrow_deposit e s u (available_balance w) tr d
              = (Success (tid, escrow_balance w + available_balance w), s1)
            \<and> wallets s1 u =
                Some (w\<lparr>available_balance := 0,
                        escrow_balance := escrow_balance w + available_balance w\<rparr>)"
    using assms
    by (simp add: escrow_deposit_def atomic_def can_place_in_escrow_def move_to_escrow_def
          create_transaction_def save_transaction_def save_wallet_def Let_def)
  show "escrow_deposit e s u (available_balance w + 1) tr d
             = (Failure ''Insufficient available balance for escrow deposit'' None, s0)"
    using assms by (simp add: escrow_deposit_def atomic_def can_place_in_escrow_def)
  show "wallets s0 u = Some w"
    using assms by (rule get_or_create_wallet_row)
  show "transactions s0 = transactions s" "bank_accounts s0 = bank_accounts s"
    using get_or_create_wallet_tables [OF assms] by simp_all
  show "\<forall>v. v \<noteq> u \<longrightarrow> wallets s0 v = wallets s v"
    using assms
    by (auto simp: get_or_create_wallet_def save_wallet_def Let_def
           split: option.splits sum.splits if_splits)
  show "\<forall>w0. wallets s u = Some w0 \<longrightarrow>
               w = w0\<lparr>stripe_customer_id := stripe_customer_id w\<rparr>"
    using get_or_create_wallet_kept [OF assms] by blast
qed

text \<open>
  C6 at the wallet holding 47.75 after the completed deposit of 50.00.
\<close>

theorem escrow_deposit_boundary_witness:
  "get_or_create_wallet gateway_ok deposit_50_completed 1
     = (Inr wallet_after_deposit_50, deposit_50_completed)
   \<and> (\<exists>tid s1.
        escrow_deposit gateway_ok deposit_50_completed 1
            (available_balance wallet_after_deposit_50) trade_1 []
          = (Success (tid, escrow_balance wallet_after_deposit_50
                            + available_balance wallet_after_deposit_50), s1)
        \<and> wallets s1 1 =
            Some (wallet_after_deposit_50
                    \<lparr>available_balance := 0,
                     escrow_balance := escrow_balance wallet_after_deposit_50
                                         + available_balance wallet_after_deposit_50\<rparr>))
   \<and> escrow_deposit gateway_ok deposit_50_completed 1
         (available_balance wallet_after_deposit_50 + 1) trade_1 []
       = (Failure ''Insufficient available balance for escrow deposit'' None,
          deposit_50_completed)"
  using escrow_deposit_boundary [OF deposit_50_completed_wallet,
      where tr = "trade_1" and d = "[]"] deposit_50_completed_wallet
  by blast

text \<open>
  C7, as stated, fails: for a deposit of 50.00 the stored Stripe fee is not 1.45, the
  net amount is not 48.35 and the completed deposit does not leave 48.35 available.
\<close>

theorem deposit_50_scenario_refuted:
  "\<not> (stripe_fee (transactions deposit_50 ! 0) = 145
      \<and> net_amount (transactions deposit_50 ! 0) = 4835
      \<and> map_option available_balance (wallets deposit_50_completed 1) = Some 4835)"
  by code_simp

text \<open>
  C7, amended. On an empty database (user 1 has no wallet yet, and the wallet made for
  the deposit has 0.00 available) a deposit intent of 50.00 leaves the transaction in
  status processing with a Stripe fee of 1.75 (2.9 percent plus 0.30) and a platform
  fee of 0.50 (1 percent), hence a net amount of 47.75; its completion yields
  \<open>available_balance = 47.75\<close> and \<open>total_deposited = 50.00\<close>.
\<close>

theorem deposit_50_scenario:
  "map_option available_balance (wallets (initial_db []) 1) = None
   \<and> fst (create_deposit_intent gateway_ok (initial_db []) 1 5000 ''pm_1'' [])
       = Success (0, ''pi_1'')
   \<and> map_option available_balance (wallets deposit_50 1) = Some 0
   \<and> status (transactions deposit_50 ! 0) = Processing
   \<and> stripe_fee (transactions deposit_50 ! 0) = 175
   \<and> platform_fee (transactions deposit_50 ! 0) = 50
   \<and> net_amount (transactions deposit_50 ! 0) = 4775
   \<and> fst (complete_deposit gateway_ok deposit_50 0 (Some ''ch_1'')) = Success True
   \<and> status (transactions deposit_50_completed ! 0) = Completed
   \<and> map_option available_balance (wallets deposit_50_completed 1) = Some 4775
   \<and> map_option total_deposited (wallets deposit_50_completed 1) = Some 5000"
  by code_simp

text \<open>
  C8. Terminal statuses are left by two operations. The webhook handler for
  \<^verbatim>\<open>payment_intent.payment_failed\<close> sets any transaction it finds to failed: the
  completed deposit of 50.00 becomes failed while its 47.75 stay in the wallet. And
  \<^verbatim>\<open>refund_transaction\<close> sets any transaction to refunded: the deposit that Stripe
  declined, in status failed, is refunded successfully.
\<close>

theorem terminal_status_left:
  "status (transactions deposit_50_completed ! 0) = Completed
   \<and> fst (stripe_webhook gateway_ok deposit_50_completed
             (Some (Payment_Intent_Payment_Failed (Some 0)))) = Success 200
   \<and> status (transactions (snd (stripe_webhook gateway_ok deposit_50_completed
                (Some (Payment_Intent_Payment_Failed (Some 0))))) ! 0) = Failed
   \<and> map_option available_balance
       (wallets (snd (stripe_webhook gateway_ok deposit_50_completed
                  (Some (Payment_Intent_Payment_Failed (Some 0))))) 1) = Some 4775
   \<and> status (transactions deposit_declined ! 0) = Failed
   \<and> fst (refund_transaction gateway_ok deposit_declined 0 ''r'') = Success (1, 5000)
   \<and> status (transactions (snd (refund_transaction gateway_ok deposit_declined 0 ''r'')) ! 0)
       = Refunded"
  by code_simp

text \<open>
  C9, as stated, fails: \<^verbatim>\<open>create_withdrawal\<close> never reads \<open>is_verified\<close>. With
  an unverified bank account as the user's active default, a withdrawal of 10.00 is
  created and left in status processing.
\<close>

theorem unverified_withdrawal:
  "\<not> is_verified unverified_bank
   \<and> bank_accounts deposit_50_unverified = [unverified_bank]
   \<and> fst (create_withdrawal gateway_ok deposit_50_unverified 1 1000 None []) = Success (1, ''Bank'')
   \<and> status (transactions (snd (create_withdrawal gateway_ok deposit_50_unverified 1 1000 None [])) ! 1)
       = Processing"
  by code_simp

text \<open>
  C9, amended. Let \<open>w\<close> be the wallet that \<^verbatim>\<open>create_withdrawal\<close> works on and
  \<open>s0\<close> the database once it has been fetched (no transaction row is written by
  that). If \<open>can_withdraw w amt\<close> is false the call returns the failure
  \<^verbatim>\<open>'Insufficient available balance for withdrawal'\<close>. Otherwise the destination is
  the active bank account of the user with the given id or, without an id, the user's
  active default account, verified or not: if there is none the call returns
  \<^verbatim>\<open>'Bank account not found'\<close> or \<^verbatim>\<open>'No default bank account found'\<close> and the
  database \<open>s0\<close>, with no transaction row created; if there is one the call succeeds with
  a new withdrawal row in status processing and the wallets as in \<open>s0\<close>, the available
  balance not yet deducted.
\<close>

theorem create_withdrawal_destination:
  assumes "get_or_create_wallet e s u = (Inr w, s0)"
  shows "(\<not> can_withdraw w amt \<longrightarrow>
            create_withdrawal e s u amt b d
              = (Failure ''Insufficient available balance for withdrawal'' None, s0))
       \<and> (can_withdraw w amt \<and> find_bank_account s u b = None \<longrightarrow>
            create_withdrawal e s u amt b d
              = (Failure (if b \<noteq> None then ''Bank account not found''
                          else ''No default bank account found'') None, s0))
       \<and> (\<forall>a. can_withdraw w amt \<and> find_bank_account s u b = Some a \<longrightarrow>
            (\<exists>s1 t. create_withdrawal e s u amt b d
                       = (Success (length (transactions s), bank_name a), s1)
                \<and> transactions s1 = transactions s @ [t]
                \<and> transaction_type t = Withdrawal \<and> status t = Processing
                \<and> amount t = amt \<and> wallet t = u
                \<and> balance_before t = Some (available_balance w)
                \<and> wallets s1 = wallets s0))
       \<and> (\<forall>r s1. create_withdrawal e s u amt b d = (Success r, s1) \<longrightarrow>
            can_withdraw w amt
            \<and> (\<exists>a \<in> set (bank_accounts s). find_bank_account s u b = Some a
                  \<and> user a = u \<and> is_active a
                  \<and> (case b of Some i \<Rightarrow> bank_id a = i | None \<Rightarrow> is_default a)))
       \<and> (find_bank_account s u b = None \<longleftrightarrow>
            \<not> (\<exists>a \<in> set (bank_accounts s). user a = u \<and> is_active a
                  \<and> (case b of Some i \<Rightarrow> bank_id a = i | None \<Rightarrow> is_default a)))
       \<and> transactions s0 = transactions s \<and> wallets s0 u = Some w"
proof -
  have tabs: "transactions s0 = transactions s" "bank_accounts s0 = bank_accounts s"
    using get_or_create_wallet_tables [OF assms] by simp_all
  have fb: "find_bank_account s0 u b = find_bank_account s u b"
    using tabs(2) by (rule find_bank_account_cong)
  have 1: "\<not> can_withdraw w amt \<longrightarrow>
            create_withdrawal e s u amt b d
              = (Failure ''Insufficient available balance for withdrawal'' None, s0)"
    using assms by (simp add: create_withdrawal_def)
  have 2: "can_withdraw w amt \<and> find_bank_account s u b = None \<longrightarrow>
            create_withdrawal e s u amt b d
              = (Failure (if b \<noteq> None then ''Bank account not found''
                          else ''No default bank account found'') None, s0)"
    using assms fb by (simp add: create_withdrawal_def)
  have 3: "\<forall>a. can_withdraw w amt \<and> find_bank_account s u b = Some a \<longrightarrow>
            (\<exists>s1 t. create_withdrawal e s u amt b d
                       = (Success (length (transactions s), bank_name a), s1)
                \<and> transactions s1 = transactions s @ [t]
                \<and> transaction_type t = Withdrawal \<and> status t = Processing
                \<and> amount t = amt \<and> wallet t = u
                \<and> balance_before t = Some (available_balance w)
                \<and> wallets s1 = wallets s0)"
    using assms fb tabs(1)
    by (simp add: create_withdrawal_def create_transaction_def save_transaction_def
          new_transaction_def Let_def)
  have 4: "\<forall>r s1. create_withdrawal e s u amt b d = (Success r, s1) \<longrightarrow>
            can_withdraw w amt
            \<and> (\<exists>a \<in> set (bank_accounts s). find_bank_account s u b = Some a
                  \<and> user a = u \<and> is_active a
                  \<and> (case b of Some i \<Rightarrow> bank_id a = i | None \<Rightarrow> is_default a))"
  proof (intro allI impI)
    fix r s1 assume ok: "create_withdrawal e s u amt b d = (Success r, s1)"
    with 1 have cw: "can_withdraw w amt" by auto
    with 2 ok obtain a where a: "find_bank_account s u b = Some a"
      by (cases "find_bank_account s u b") auto
    from find_bank_account_Some [OF a] a cw
    show "can_withdraw w amt
            \<and> (\<exists>a \<in> set (bank_accounts s). find_bank_account s u b = Some a
                  \<and> user a = u \<and> is_active a
                  \<and> (case b of Some i \<Rightarrow> bank_id a = i | None \<Rightarrow> is_default a))"
      by blast
  qed
  show ?thesis
    using 1 2 3 4 tabs(1) get_or_create_wallet_row [OF assms] find_bank_account_None [of s u b]
    by blast
qed

text \<open>
  The amended C9 for the user holding 47.75 whose default account is unverified: a
  withdrawal of 10.00, one of 9999.99, and one to the unknown account 42.
\<close>

theorem create_withdrawal_destination_witness:
  "get_or_create_wallet gateway_ok deposit_50_unverified 1
     = (Inr wallet_after_deposit_50, deposit_50_unverified)
   \<and> can_withdraw wallet_after_deposit_50 1000
   \<and> find_bank_account deposit_50_unverified 1 None = Some unverified_bank
   \<and> (\<exists>s1 t. create_withdrawal gateway_ok deposit_50_unverified 1 1000 None []
                = (Success (length (transactions deposit_50_unverified),
                            bank_name unverified_bank), s1)
         \<and> transactions s1 = transactions deposit_50_unverified @ [t]
         \<and> status t = Processing
         \<and> wallets s1 = wallets deposit_50_unverified)
   \<and> \<not> can_withdraw wallet_after_deposit_50 999999
   \<and> create_withdrawal gateway_ok deposit_50_unverified 1 999999 None []
       = (Failure ''Insufficient available balance for withdrawal'' None, deposit_50_unverified)
   \<and> find_bank_account deposit_50_unverified 1 (Some 42) = None
   \<and> create_withdrawal gateway_ok deposit_50_unverified 1 1000 (Some 42) []
       = (Failure ''Bank account not found'' None, deposit_50_unverified)"
proof -
  have h: "can_withdraw wallet_after_deposit_50 1000"
    "find_bank_account deposit_50_unverified 1 None = Some unverified_bank"
    "\<not> can_withdraw wallet_after_deposit_50 999999"
    "find_bank_account deposit_50_unverified 1 (Some 42) = None"
    by code_simp+
  from create_withdrawal_destination [OF deposit_50_unverified_wallet,
      where amt = 1000 and b = None and d = "[]"] h
  have c1: "\<exists>s1 t. create_withdrawal gateway_ok deposit_50_unverified 1 1000 None []
                = (Success (length (transactions deposit_50_unverified),
                            bank_name unverified_bank), s1)
         \<and> transactions s1 = transactions deposit_50_unverified @ [t]
         \<and> status t = Processing
         \<and> wallets s1 = wallets deposit_50_unverified"
    by blast
  from create_withdrawal_destination [OF deposit_50_unverified_wallet,
      where amt = 999999 and b = None and d = "[]"] h
  have c2: "create_withdrawal gateway_ok deposit_50_unverified 1 999999 None []
       = (Failure ''Insufficient available balance for withdrawal'' None, deposit_50_unverified)"
    by blast
  from create_withdrawal_destination [OF deposit_50_unverified_wallet,
      where amt = 1000 and b = "Some 42" and d = "[]"] h
  have c3: "create_withdrawal gateway_ok deposit_50_unverified 1 1000 (Some 42) []
       = (Failure ''Bank account not found'' None, deposit_50_unverified)"
    by simp
  from deposit_50_unverified_wallet h c1 c2 c3 show ?thesis by blast
qed

text \<open>
  C10. Completing a processing deposit changes, in the wallets table, only the wallet
  of the transaction, and in that wallet only \<open>available_balance\<close> and
  \<open>total_deposited\<close>; in the transaction table only the completed row; and no bank
  account.
\<close>

theorem complete_deposit_frame:
  assumes "get_transaction s tid = Some t" and "transaction_type t = Deposit"
    and "status t = Processing" and "wallets s (wallet t) = Some w"
  shows "\<exists>s1 w1.
           complete_deposit e s tid ch = (Success True, s1)
           \<and> wallets s1 = (wallets s)(wallet t \<mapsto> w1)
           \<and> w1 = w\<lparr>available_balance := available_balance w1,
                     total_deposited := total_deposited w1\<rparr>
           \<and> escrow_balance w1 = escrow_balance w
           \<and> total_withdrawn w1 = total_withdrawn w
           \<and> total_shipping_paid w1 = total_shipping_paid w
           \<and> withdrawal_limit_daily w1 = withdrawal_limit_daily w
           \<and> withdrawal_limit_monthly w1 = withdrawal_limit_monthly w
           \<and> stripe_customer_id w1 = stripe_customer_id w
           \<and> length (transactions s1) = length (transactions s)
           \<and> (\<forall>j. j \<noteq> tid \<longrightarrow> transactions s1 ! j = transactions s ! j)
           \<and> bank_accounts s1 = bank_accounts s"
proof -
  let ?w1 = "w\<lparr>available_balance := available_balance w + net_amount t,
                total_deposited := total_deposited w + amount t\<rparr>"
  let ?t1 = "t\<lparr>status := Completed, stripe_charge_id := ch,
                balance_after := Some (available_balance w + net_amount t),
                completed_at := Some (now e)\<rparr>"
  let ?s1 = "save_transaction (save_wallet s (wallet t) ?w1) tid ?t1"
  have call: "complete_deposit e s tid ch = (Success True, ?s1)"
    using assms by (simp add: complete_deposit_def atomic_def Let_def)
  have tables: "wallets ?s1 = (wallets s)(wallet t \<mapsto> ?w1)"
    "bank_accounts ?s1 = bank_accounts s"
    "length (transactions ?s1) = length (transactions s)"
    "\<forall>j. j \<noteq> tid \<longrightarrow> transactions ?s1 ! j = transactions s ! j"
    by (simp_all add: save_transaction_def save_wallet_def)
  have fields: "?w1 = w\<lparr>available_balance := available_balance ?w1,
                         total_deposited := total_deposited ?w1\<rparr>"
    "escrow_balance ?w1 = escrow_balance w" "total_withdrawn ?w1 = total_withdrawn w"
    "total_shipping_paid ?w1 = total_shipping_paid w"
    "withdrawal_limit_daily ?w1 = withdrawal_limit_daily w"
    "withdrawal_limit_monthly ?w1 = withdrawal_limit_monthly w"
    "stripe_customer_id ?w1 = stripe_customer_id w"
    by simp_all
  from call tables fields show ?thesis by blast
qed

text \<open>
  C10 at the processing deposit of 50.00.
\<close>

theorem complete_deposit_frame_witness:
  "get_transaction deposit_50 0 = Some processing_deposit_50
   \<and> transaction_type processing_deposit_50 = Deposit
   \<and> status processing_deposit_50 = Processing
   \<and> wallets deposit_50 (wallet processing_deposit_50) = Some wallet_before_deposit_50
   \<and> (\<exists>s1 w1.
         complete_deposit gateway_ok deposit_50 0 (Some ''ch_1'') = (Success True, s1)
         \<and> wallets s1 = (wallets deposit_50)(wallet processing_deposit_50 \<mapsto> w1)
         \<and> escrow_balance w1 = escrow_balance wallet_before_deposit_50
         \<and> stripe_customer_id w1 = stripe_customer_id wallet_before_deposit_50
         \<and> length (transactions s1) = length (transactions deposit_50)
         \<and> bank_accounts s1 = bank_accounts deposit_50)"
proof -
  from complete_deposit_frame [OF deposit_50_facts(1-4),
      where e = gateway_ok and ch = "Some ''ch_1''"]
  have "\<exists>s1 w1.
         complete_deposit gateway_ok deposit_50 0 (Some ''ch_1'') = (Success True, s1)
         \<and> wallets s1 = (wallets deposit_50)(wallet processing_deposit_50 \<mapsto> w1)
         \<and> escrow_balance w1 = escrow_balance wallet_before_deposit_50
         \<and> stripe_customer_id w1 = stripe_customer_id wallet_before_deposit_50
         \<and> length (transactions s1) = length (transactions deposit_50)
         \<and> bank_accounts s1 = bank_accounts deposit_50"
    by blast
  with deposit_50_facts show ?thesis by blast
qed

end
